theory Spec2Isabelle
  imports Main
begin

section \<open>Errors and outcomes\<close>

text \<open>
  A TypeScript call either returns or throws, and what it wrote before throwing stays
  written. Every operation of the model therefore returns a pair: the outcome
  (\<open>Inl\<close> the thrown error, \<open>Inr\<close> the returned value) and the state at the moment of
  return or throw.
\<close>

datatype runtime_error_code = MISSING_INJECTION_CONTEXT

datatype error =
    InvalidWriteToSignal
  | RuntimeError runtime_error_code "string option"
  | Thrown string

text \<open>
  \<open>InvalidWriteToSignal\<close> is what \<open>throwInvalidWriteToSignalError()\<close> throws.
  \<open>RuntimeError code message\<close> is \<open>new RuntimeError(code, message)\<close>; the message
  argument is a string or a falsy value, the latter written \<open>None\<close>.
  \<open>Thrown x\<close> is any error thrown by code outside this development (a caller-supplied
  callback, a method of a class that is not under src/).
\<close>

section \<open>Writable signals (signal.ts)\<close>

subsection \<open>The data\<close>

text \<open>
  The readonly view built by \<open>asReadonly\<close> is the arrow function
  \<open>() => this.signal()\<close>: a function object with an identity of its own (\<open>objId\<close>)
  that captures the node it was created on (\<open>captured\<close>).
\<close>

datatype fnobj = Closure (objId: nat) (captured: nat)

text \<open>
  \<open>class WritableSignalImpl<T> extends ReactiveNode\<close>. The fields \<open>value\<close> and
  \<open>equal\<close> are declared in signal.ts (renamed because Isabelle reserves both words);
  \<open>valueVersion\<close> is inherited from ReactiveNode. \<open>consumers\<close> is the reverse set of
  dependents the spec gives every reactive node. The third field of the class,
  \<open>readonlySignal\<close>, is kept in a table of its own, see \<open>world\<close> below.

  \<open>value\<close> stands for what the signal holds, the content of the object when it holds
  an object: a mutation in place is a new \<open>nodeValue\<close>.

  \<open>valueVersion\<close> is a JavaScript number that starts at 0 and is only ever incremented
  by one; it is modelled as an unbounded natural number (the spec's "monotonic
  integer" that never wraps).

  \<open>equal\<close> is a pure total function, as the spec requires of it.
\<close>

record 'a WritableSignalImpl =
  nodeValue :: 'a
  equalFn :: "'a \<Rightarrow> 'a \<Rightarrow> bool"
  valueVersion :: nat
  consumers :: "nat set"

text \<open>
  The consumer that is currently computing, as far as a signal looks at it: its identity
  and its \<open>consumerAllowSignalWrites\<close> flag.
\<close>

record consumer =
  consumerId :: nat
  consumerAllowSignalWrites :: bool

datatype event = ProducerMayHaveChanged nat

text \<open>
  The reactive graph, which is the state that code outside signal.ts can read and
  write through the signals' methods:
  \<^item> \<open>nodes\<close>: the heap of signal nodes, by reactive id;
  \<^item> \<open>nextReactiveId\<close>: the allocation counter for nodes;
  \<^item> \<open>activeConsumer\<close>: the process-wide "current consumer" slot of the spec;
  \<^item> \<open>producers\<close>: for a consumer and a producer, the version recorded at the last
    read (the spec's dependency map);
  \<^item> \<open>dirty\<close>: the consumers currently flagged dirty;
  \<^item> \<open>trace\<close>: the calls of \<open>producerMayHaveChanged\<close> made so far, in order;
  \<^item> \<open>heap\<close>: the state of the callers' own code.
\<close>

record ('a, 'h) graph =
  nodes :: "nat \<Rightarrow> 'a WritableSignalImpl"
  nextReactiveId :: nat
  activeConsumer :: "consumer option"
  producers :: "nat \<times> nat \<Rightarrow> nat option"
  dirty :: "nat set"
  trace :: "event list"
  heap :: 'h

text \<open>
  Caller-supplied callbacks are arbitrary code: they may throw, and they may read and
  write signals, their own or any other, besides their own state. Each is modelled by
  what it does to the reactive graph, which is any function at all on it:
  \<^item> an updater \<open>(value: T) => T\<close> returns the new value or throws;
  \<^item> a mutator \<open>(value: T) => void\<close> changes the value it is given in place, that
    is, the \<open>nodeValue\<close> of the node in the graph it returns;
  \<^item> the post-set hook \<open>() => void\<close>, which "can be used to achieve various effects,
    such as running effects synchronously as part of setting a signal".
  A callback's effect includes that of every call it makes itself: for a hook that
  writes a signal, the nested write and the nested run of the hook. What a callback
  does not do in the model is what needs the private part of the state, see \<open>world\<close>
  below: create a readonly view or a signal's handle, or install another hook.
\<close>

type_synonym ('a, 'h) updater = "'a \<Rightarrow> ('a, 'h) graph \<Rightarrow> (error + 'a) \<times> ('a, 'h) graph"
type_synonym ('a, 'h) mutator = "'a \<Rightarrow> ('a, 'h) graph \<Rightarrow> (error + unit) \<times> ('a, 'h) graph"
type_synonym ('a, 'h) hook = "('a, 'h) graph \<Rightarrow> (error + unit) \<times> ('a, 'h) graph"

text \<open>
  The whole state signal.ts runs in: the graph, and what is private to signal.ts and
  out of the callbacks' reach:
  \<^item> \<open>readonlySignal\<close>: for each node its \<open>private readonlySignal\<close> field
    (\<open>None\<close> is \<open>undefined\<close>), written by \<open>asReadonly\<close> only;
  \<^item> \<open>nextObj\<close>: the allocation counter for the function objects that signal.ts
    creates;
  \<^item> \<open>postSignalSetFn\<close>: the module variable (\<open>None\<close> is \<open>null\<close>).
\<close>

record ('a, 'h) world = "('a, 'h) graph" +
  readonlySignal :: "nat \<Rightarrow> fnobj option"
  nextObj :: nat
  postSignalSetFn :: "('a, 'h) hook option"

text \<open>The graph of a world, and a world with its graph replaced.\<close>

definition graph_of :: "('a, 'h) world \<Rightarrow> ('a, 'h) graph" where
  "graph_of w =
     \<lparr>nodes = nodes w, nextReactiveId = nextReactiveId w, activeConsumer = activeConsumer w,
      producers = producers w, dirty = dirty w, trace = trace w, heap = heap w\<rparr>"

definition with_graph :: "('a, 'h) graph \<Rightarrow> ('a, 'h) world \<Rightarrow> ('a, 'h) world" where
  "with_graph g w =
     w\<lparr>nodes := nodes g, nextReactiveId := nextReactiveId g, activeConsumer := activeConsumer g,
       producers := producers g, dirty := dirty g, trace := trace g, heap := heap g\<rparr>"

subsection \<open>What signal.ts imports from graph.ts, errors.ts and api.ts\<close>

text \<open>
  Modelled from the spec: the getter \<open>ReactiveNode.producerUpdatesAllowed\<close> (graph.ts
  is not under src/). A write fails "if called while any consumer is currently
  executing a read-only computation pass unless that consumer has explicitly opted into
  allowing writes during its own evaluation".
\<close>

definition producerUpdatesAllowed :: "('a, 'h, 'z) graph_scheme \<Rightarrow> bool" where
  "producerUpdatesAllowed w =
     (case activeConsumer w of None \<Rightarrow> True | Some c \<Rightarrow> consumerAllowSignalWrites c)"

text \<open>
  Modelled from the spec: \<open>throwInvalidWriteToSignalError\<close> (errors.ts is not under
  src/). It never returns: it "signals an invalid-write error", "surfaced
  synchronously to the caller".
\<close>

definition throwInvalidWriteToSignalError :: "'s \<Rightarrow> (error + 'r) \<times> 's" where
  "throwInvalidWriteToSignalError w = (Inl InvalidWriteToSignal, w)"

text \<open>
  Modelled from the spec: \<open>ReactiveNode.producerMayHaveChanged\<close> (graph.ts is not
  under src/). It "walks the live set of dependent consumers and marks each dirty
  (sets a flag; does not recompute)". The call itself is recorded in \<open>trace\<close>.
\<close>

definition producerMayHaveChanged ::
  "nat \<Rightarrow> ('a, 'h, 'z) graph_scheme \<Rightarrow> ('a, 'h, 'z) graph_scheme" where
  "producerMayHaveChanged n w =
     w\<lparr>dirty := dirty w \<union> consumers (nodes w n),
       trace := trace w @ [ProducerMayHaveChanged n]\<rparr>"

text \<open>
  Modelled from the spec: \<open>ReactiveNode.producerAccessed\<close> (graph.ts is not under
  src/). It "registers an edge: current-consumer depends on this, recording
  this.version at time of access. No-op if no consumer is currently computing".
\<close>

definition producerAccessed ::
  "nat \<Rightarrow> ('a, 'h, 'z) graph_scheme \<Rightarrow> ('a, 'h, 'z) graph_scheme" where
  "producerAccessed n w =
     (case activeConsumer w of
        None \<Rightarrow> w
      | Some c \<Rightarrow>
          w\<lparr>producers := (producers w)((consumerId c, n) \<mapsto> valueVersion (nodes w n)),
            nodes := (nodes w)(n := (nodes w n)\<lparr>consumers :=
                        insert (consumerId c) (consumers (nodes w n))\<rparr>)\<rparr>)"

text \<open>
  Modelled from the spec: \<open>createSignalFromFunction(node, fn)\<close> (api.ts is not under
  src/) returns the function it is given as the signal handle, "a capability-restricted
  view exposing only read". Both callers pass a function created on the spot that reads
  the node (\<open>() => this.signal()\<close>, \<open>signalNode.signal.bind(signalNode)\<close>), so the
  model allocates a function object that captures the node.
\<close>

definition createSignalFromFunction ::
  "nat \<Rightarrow> ('a, 'h) world \<Rightarrow> fnobj \<times> ('a, 'h) world" where
  "createSignalFromFunction n w = (Closure (nextObj w) n, w\<lparr>nextObj := nextObj w + 1\<rparr>)"

subsection \<open>The methods of WritableSignalImpl\<close>

text \<open>
  \<open>postSignalSetFn?.()\<close>: nothing when the hook is \<open>null\<close>; otherwise the hook runs
  on the graph, and what it returns or throws is what the call returns or throws.
\<close>

definition callPostSignalSetFn :: "('a, 'h) world \<Rightarrow> (error + unit) \<times> ('a, 'h) world" where
  "callPostSignalSetFn w =
     (case postSignalSetFn w of
        None \<Rightarrow> (Inr (), w)
      | Some f \<Rightarrow> (case f (graph_of w) of (r, g) \<Rightarrow> (r, with_graph g w)))"

text \<open>\<open>this.valueVersion++\<close> on node \<open>n\<close>.\<close>

definition incValueVersion ::
  "nat \<Rightarrow> ('a, 'h, 'z) graph_scheme \<Rightarrow> ('a, 'h, 'z) graph_scheme" where
  "incValueVersion n w =
     w\<lparr>nodes := (nodes w)(n := (nodes w n)\<lparr>valueVersion := valueVersion (nodes w n) + 1\<rparr>)\<rparr>"

text \<open>\<open>this.value = v\<close> on node \<open>n\<close>.\<close>

definition assignValue ::
  "nat \<Rightarrow> 'a \<Rightarrow> ('a, 'h, 'z) graph_scheme \<Rightarrow> ('a, 'h, 'z) graph_scheme" where
  "assignValue n v w = w\<lparr>nodes := (nodes w)(n := (nodes w n)\<lparr>nodeValue := v\<rparr>)\<rparr>"

text \<open>\<open>WritableSignalImpl.set\<close> (named \<open>ws_set\<close>: \<open>set\<close> is a constant of HOL).\<close>

definition ws_set :: "nat \<Rightarrow> 'a \<Rightarrow> ('a, 'h) world \<Rightarrow> (error + unit) \<times> ('a, 'h) world" where
  "ws_set n newValue w =
     (if \<not> producerUpdatesAllowed w then throwInvalidWriteToSignalError w
      else if \<not> equalFn (nodes w n) (nodeValue (nodes w n)) newValue then
        callPostSignalSetFn
          (producerMayHaveChanged n (incValueVersion n (assignValue n newValue w)))
      else (Inr (), w))"

text \<open>
  \<open>WritableSignalImpl.update\<close>: the guard, then the updater on the current value,
  then \<open>set\<close> on what it returned, in the state it left.
\<close>

definition ws_update ::
  "nat \<Rightarrow> ('a, 'h) updater \<Rightarrow> ('a, 'h) world \<Rightarrow> (error + unit) \<times> ('a, 'h) world" where
  "ws_update n updater w =
     (if \<not> producerUpdatesAllowed w then throwInvalidWriteToSignalError w
      else (case updater (nodeValue (nodes w n)) (graph_of w) of
              (Inl e, g) \<Rightarrow> (Inl e, with_graph g w)
            | (Inr v, g) \<Rightarrow> ws_set n v (with_graph g w)))"

text \<open>
  \<open>WritableSignalImpl.mutate\<close>: the guard, then the mutator on the current value;
  if it throws, the error leaves \<open>mutate\<close> with whatever the mutator did; if it
  returns, the version is incremented, \<open>producerMayHaveChanged\<close> is called and the
  hook runs.
\<close>

definition ws_mutate ::
  "nat \<Rightarrow> ('a, 'h) mutator \<Rightarrow> ('a, 'h) world \<Rightarrow> (error + unit) \<times> ('a, 'h) world" where
  "ws_mutate n mutator w =
     (if \<not> producerUpdatesAllowed w then throwInvalidWriteToSignalError w
      else (case mutator (nodeValue (nodes w n)) (graph_of w) of
              (Inl e, g) \<Rightarrow> (Inl e, with_graph g w)
            | (Inr u, g) \<Rightarrow>
                callPostSignalSetFn
                  (producerMayHaveChanged n (incValueVersion n (with_graph g w)))))"

text \<open>\<open>WritableSignalImpl.asReadonly\<close>.\<close>

definition ws_asReadonly :: "nat \<Rightarrow> ('a, 'h) world \<Rightarrow> fnobj \<times> ('a, 'h) world" where
  "ws_asReadonly n w =
     (case readonlySignal w n of
        None \<Rightarrow>
          (case createSignalFromFunction n w of
             (f, w1) \<Rightarrow> (f, w1\<lparr>readonlySignal := (readonlySignal w1)(n := Some f)\<rparr>))
      | Some f \<Rightarrow> (f, w))"

text \<open>\<open>WritableSignalImpl.signal\<close>: the read.\<close>

definition ws_signal :: "nat \<Rightarrow> ('a, 'h) world \<Rightarrow> 'a \<times> ('a, 'h) world" where
  "ws_signal n w = (case producerAccessed n w of w1 \<Rightarrow> (nodeValue (nodes w1 n), w1))"

text \<open>Calling a readonly view runs its body, \<open>this.signal()\<close> on the captured node.\<close>

definition callView :: "fnobj \<Rightarrow> ('a, 'h) world \<Rightarrow> 'a \<times> ('a, 'h) world" where
  "callView f w = ws_signal (captured f) w"

text \<open>
  \<open>new WritableSignalImpl(value, equal)\<close>: the constructor. The node gets the next
  reactive id, version 0, no readonly view and no dependents.
\<close>

definition new_WritableSignalImpl ::
  "'a \<Rightarrow> ('a \<Rightarrow> 'a \<Rightarrow> bool) \<Rightarrow> ('a, 'h) world \<Rightarrow> nat \<times> ('a, 'h) world" where
  "new_WritableSignalImpl v e w =
     (nextReactiveId w,
      w\<lparr>nodes := (nodes w)(nextReactiveId w :=
            \<lparr>nodeValue = v, equalFn = e, valueVersion = 0, consumers = {}\<rparr>),
        nextReactiveId := nextReactiveId w + 1,
        readonlySignal := (readonlySignal w)(nextReactiveId w := None)\<rparr>)"

text \<open>
  \<open>signal(initialValue, options)\<close>. The handle it returns is the function
  \<open>signalNode.signal.bind(signalNode)\<close>, with \<open>set\<close>, \<open>update\<close>, \<open>mutate\<close> and
  \<open>asReadonly\<close> bound to the same node: a function object that captures the node.
  \<open>options?.equal ?? defaultEquals\<close> takes \<open>defaultEquals\<close> (api.ts, not under src/)
  as a parameter.
\<close>

definition signal ::
  "('a \<Rightarrow> 'a \<Rightarrow> bool) \<Rightarrow> 'a \<Rightarrow> ('a \<Rightarrow> 'a \<Rightarrow> bool) option \<Rightarrow> ('a, 'h) world \<Rightarrow>
     fnobj \<times> ('a, 'h) world" where
  "signal defaultEquals initialValue options w =
     (case new_WritableSignalImpl initialValue
             (case options of None \<Rightarrow> defaultEquals | Some e \<Rightarrow> e) w of
        (signalNode, w1) \<Rightarrow> createSignalFromFunction signalNode w1)"

text \<open>\<open>setPostSignalSetFn\<close>: installs the hook and returns the previous one.\<close>

definition setPostSignalSetFn ::
  "('a, 'h) hook option \<Rightarrow> ('a, 'h) world \<Rightarrow> ('a, 'h) hook option \<times> ('a, 'h) world" where
  "setPostSignalSetFn fn w = (postSignalSetFn w, w\<lparr>postSignalSetFn := fn\<rparr>)"

text \<open>
  A caller's use of one signal \<open>n\<close>: any sequence of calls of its five methods. An error
  a call throws is caught by the caller, and the next call runs in the state the throw
  left behind.
\<close>

datatype ('a, 'h) call =
    CallSet 'a
  | CallUpdate "('a, 'h) updater"
  | CallMutate "('a, 'h) mutator"
  | CallSignal
  | CallAsReadonly

fun perform :: "nat \<Rightarrow> ('a, 'h) call \<Rightarrow> ('a, 'h) world \<Rightarrow> ('a, 'h) world" where
  "perform n (CallSet v) w = snd (ws_set n v w)"
| "perform n (CallUpdate f) w = snd (ws_update n f w)"
| "perform n (CallMutate m) w = snd (ws_mutate n m w)"
| "perform n CallSignal w = snd (ws_signal n w)"
| "perform n CallAsReadonly w = snd (ws_asReadonly n w)"


text \<open>
  The spec's reading of \<open>update\<close>, "equivalent to \<open>set(fn(current))\<close>": the caller
  evaluates \<open>fn\<close> on the current value and passes the result to \<open>set\<close>.
\<close>

definition set_of_fn_current ::
  "nat \<Rightarrow> ('a, 'h) updater \<Rightarrow> ('a, 'h) world \<Rightarrow> (error + unit) \<times> ('a, 'h) world" where
  "set_of_fn_current n fn w =
     (case fn (nodeValue (nodes w n)) (graph_of w) of
        (Inl e, g) \<Rightarrow> (Inl e, with_graph g w)
      | (Inr v, g) \<Rightarrow> ws_set n v (with_graph g w))"

section \<open>The injection context (contextual.ts)\<close>

subsection \<open>The data\<close>

text \<open>
  An injector, as far as \<open>runInInjectionContext\<close> looks at it: its identity, whether it
  is an \<open>instanceof R3Injector\<close>, and what its method \<open>assertNotDestroyed()\<close> does when
  called (r3_injector.ts is not under src/, so the method's outcome is data of the
  object: \<open>None\<close> when it returns, \<open>Some e\<close> when it throws \<open>e\<close>).
\<close>

record injector =
  injectorId :: nat
  isR3Injector :: bool
  assertNotDestroyed :: "error option"

text \<open>The "current resolver" slot holds \<open>undefined\<close>, \<open>null\<close> or an injector.\<close>

datatype injector_slot = Undefined | Null | Injector injector

text \<open>
  The process-wide state of the injection context: the current injector, the installed
  inject implementation (a function, known by its identity; \<open>None\<close> is \<open>undefined\<close>),
  and the state of the code that runs inside the context.
\<close>

record 'h injection_state =
  currentInjector :: injector_slot
  injectImplementation :: "nat option"
  appState :: 'h

text \<open>A JavaScript function value, as far as its \<open>name\<close> property.\<close>

datatype jsfunction = Function (fnName: string)

subsection \<open>What contextual.ts imports\<close>

text \<open>
  Modelled from the spec: \<open>getCurrentInjector\<close> and \<open>setCurrentInjector\<close>
  (injector_compatibility.ts is not under src/): the "process-wide current resolver
  slot"; the setter installs a resolver and hands back the prior one, which
  \<open>runInContext\<close> "saves" and later "restores".
\<close>

definition getCurrentInjector :: "'h injection_state \<Rightarrow> injector_slot" where
  "getCurrentInjector s = currentInjector s"

definition setCurrentInjector ::
  "injector_slot \<Rightarrow> 'h injection_state \<Rightarrow> injector_slot \<times> 'h injection_state" where
  "setCurrentInjector i s = (currentInjector s, s\<lparr>currentInjector := i\<rparr>)"

text \<open>
  Modelled from the spec: \<open>getInjectImplementation\<close> and \<open>setInjectImplementation\<close>
  (inject_switch.ts is not under src/): the "inject override" state, saved and restored
  in the same way.
\<close>

definition getInjectImplementation :: "'h injection_state \<Rightarrow> nat option" where
  "getInjectImplementation s = injectImplementation s"

definition setInjectImplementation ::
  "nat option \<Rightarrow> 'h injection_state \<Rightarrow> nat option \<times> 'h injection_state" where
  "setInjectImplementation impl s = (injectImplementation s, s\<lparr>injectImplementation := impl\<rparr>)"

text \<open>JavaScript truthiness of the two slots, as \<open>!x\<close> tests it.\<close>

fun truthy_injector :: "injector_slot \<Rightarrow> bool" where
  "truthy_injector Undefined = False"
| "truthy_injector Null = False"
| "truthy_injector (Injector i) = True"

fun truthy_impl :: "nat option \<Rightarrow> bool" where
  "truthy_impl None = False"
| "truthy_impl (Some f) = True"

subsection \<open>The two functions of contextual.ts\<close>

text \<open>
  \<open>runInInjectionContext\<close>. The body of \<open>try\<close> is one call of \<open>fn\<close>; the \<open>finally\<close>
  block runs after it whether it returned or threw, and the outcome of \<open>fn\<close> is then
  returned or rethrown.
\<close>

definition runInInjectionContext ::
  "injector \<Rightarrow> ('h injection_state \<Rightarrow> (error + 'r) \<times> 'h injection_state) \<Rightarrow>
     'h injection_state \<Rightarrow> (error + 'r) \<times> 'h injection_state" where
  "runInInjectionContext injector fn s =
     (case (if isR3Injector injector then assertNotDestroyed injector else None) of
        Some e \<Rightarrow> (Inl e, s)
      | None \<Rightarrow>
          (case setCurrentInjector (Injector injector) s of (prevInjector, s1) \<Rightarrow>
           case setInjectImplementation None s1 of (previousInjectImplementation, s2) \<Rightarrow>
           case fn s2 of (r, s3) \<Rightarrow>
           case setCurrentInjector prevInjector s3 of (u, s4) \<Rightarrow>
           case setInjectImplementation previousInjectImplementation s4 of (u', s5) \<Rightarrow>
             (r, s5)))"

text \<open>
  \<open>assertInInjectionContext\<close>. \<open>ngDevMode\<close> is a global of the build (truthy in
  development mode); the message argument \<open>ngDevMode && (debugFn.name + '...')\<close> is the
  string in development mode and the falsy \<open>ngDevMode\<close> otherwise.
\<close>

definition assertInInjectionContext ::
  "bool \<Rightarrow> jsfunction \<Rightarrow> 'h injection_state \<Rightarrow> (error + unit) \<times> 'h injection_state" where
  "assertInInjectionContext ngDevMode debugFn s =
     (if \<not> truthy_impl (getInjectImplementation s) \<and> \<not> truthy_injector (getCurrentInjector s)
      then (Inl (RuntimeError MISSING_INJECTION_CONTEXT
                  (if ngDevMode
                   then Some (fnName debugFn @
                     ''() can only be used within an injection context such as a constructor, a factory function, a field initializer, or a function used with `runInInjectionContext`'')
                   else None)), s)
      else (Inr (), s))"

section \<open>Auxiliary definitions for the statements\<close>


text \<open>
  The cached readonly view of node \<open>n\<close>, if there is one, is a closure over \<open>n\<close>
  itself. \<open>signal\<close> creates nodes without a view and \<open>asReadonly\<close> is the only writer
  of the field, so this holds of every node a program can reach.
\<close>

definition readonlySignal_ok :: "nat \<Rightarrow> ('a, 'h) world \<Rightarrow> bool" where
  "readonlySignal_ok n w =
     (case readonlySignal w n of None \<Rightarrow> True | Some f \<Rightarrow> captured f = n)"

text \<open>
  Example data for the concrete instances below: a signal of integers with the default
  equality, one dependent (consumer 7), no hook; the same world while consumer 7 is
  computing without permission to write; the same world with an equality function that
  compares parities.
\<close>

abbreviation example_node :: "int WritableSignalImpl" where
  "example_node \<equiv> \<lparr>nodeValue = 5, equalFn = (=), valueVersion = 0, consumers = {7}\<rparr>"

abbreviation example_world :: "(int, nat) world" where
  "example_world \<equiv>
     \<lparr>nodes = (\<lambda>i. example_node), nextReactiveId = 1, activeConsumer = None,
      producers = Map.empty, dirty = {}, trace = [], heap = 0,
      readonlySignal = (\<lambda>i. None), nextObj = 0, postSignalSetFn = None\<rparr>"

abbreviation computing_world :: "(int, nat) world" where
  "computing_world \<equiv>
     example_world\<lparr>activeConsumer := Some \<lparr>consumerId = 7, consumerAllowSignalWrites = False\<rparr>\<rparr>"

abbreviation parity_world :: "(int, nat) world" where
  "parity_world \<equiv>
     example_world\<lparr>nodes := (\<lambda>i. example_node\<lparr>equalFn := (\<lambda>a b. a mod 2 = b mod 2)\<rparr>)\<rparr>"

text \<open>
  Two hooks. The first throws after touching the callers' state. The second is
  \<open>() => s.set(99)\<close> for the signal \<open>s\<close> with id 0: the guard, the comparison, the
  write and the notification of \<open>set\<close>; the run of the hook nested in that write calls
  \<open>s.set(99)\<close> on a signal that holds 99 and does nothing.
\<close>

abbreviation failing_hook :: "(int, nat) hook" where
  "failing_hook \<equiv> (\<lambda>g. (Inl (Thrown ''hook failed''), g\<lparr>heap := heap g + 10\<rparr>))"

abbreviation rewriting_hook :: "(int, nat) hook" where
  "rewriting_hook \<equiv>
     (\<lambda>g. if \<not> producerUpdatesAllowed g then (Inl InvalidWriteToSignal, g)
           else if \<not> equalFn (nodes g 0) (nodeValue (nodes g 0)) 99
           then (Inr (), producerMayHaveChanged 0 (incValueVersion 0 (assignValue 0 99 g)))
           else (Inr (), g))"

abbreviation hooked_world :: "(int, nat) world" where
  "hooked_world \<equiv> example_world\<lparr>postSignalSetFn := Some failing_hook\<rparr>"

abbreviation rewriting_world :: "(int, nat) world" where
  "rewriting_world \<equiv> example_world\<lparr>postSignalSetFn := Some rewriting_hook\<rparr>"

text \<open>
  Callbacks: an updater and a mutator that count their invocations in the callers'
  state (the mutator leaves the value as it is), and a mutator that changes the value
  in place and then throws.
\<close>

abbreviation counting_updater :: "(int, nat) updater" where
  "counting_updater \<equiv> (\<lambda>v g. (Inr (v + 1), g\<lparr>heap := heap g + 1\<rparr>))"

abbreviation counting_mutator :: "(int, nat) mutator" where
  "counting_mutator \<equiv> (\<lambda>v g. (Inr (), g\<lparr>heap := heap g + 1\<rparr>))"


text \<open>
  Example data for the injection context: an \<open>R3Injector\<close> that has been destroyed
  and one that has not, the state outside any injection context, a function that
  counts its invocations and returns 42, and a function that overwrites both slots
  and then throws.
\<close>

abbreviation destroyed_injector :: injector where
  "destroyed_injector \<equiv>
     \<lparr>injectorId = 1, isR3Injector = True,
      assertNotDestroyed = Some (Thrown ''Injector has already been destroyed.'')\<rparr>"

abbreviation live_injector :: injector where
  "live_injector \<equiv> \<lparr>injectorId = 2, isR3Injector = True, assertNotDestroyed = None\<rparr>"

abbreviation outside_context :: "nat injection_state" where
  "outside_context \<equiv> \<lparr>currentInjector = Undefined, injectImplementation = None, appState = 0\<rparr>"

abbreviation counting_fn :: "nat injection_state \<Rightarrow> (error + nat) \<times> nat injection_state" where
  "counting_fn \<equiv> (\<lambda>s. (Inr 42, s\<lparr>appState := appState s + 1\<rparr>))"

abbreviation leaking_fn :: "nat injection_state \<Rightarrow> (error + nat) \<times> nat injection_state" where
  "leaking_fn \<equiv>
     (\<lambda>s. (Inl (Thrown ''boom''),
            s\<lparr>currentInjector := Null, injectImplementation := Some 9, appState := appState s + 1\<rparr>))"

section \<open>Properties of writable signals\<close>

subsection \<open>Callbacks reach the graph and nothing else\<close>

lemma graph_of_with_graph [simp]: "graph_of (with_graph g w) = g"
  by (simp add: graph_of_def with_graph_def)

lemma with_graph_graph_of [simp]: "with_graph (graph_of w) w = w"
  by (simp add: graph_of_def with_graph_def)

lemma with_graph_readonlySignal [simp]: "readonlySignal (with_graph g w) = readonlySignal w"
  by (simp add: with_graph_def)

lemma with_graph_nextObj [simp]: "nextObj (with_graph g w) = nextObj w"
  by (simp add: with_graph_def)

lemma with_graph_postSignalSetFn [simp]: "postSignalSetFn (with_graph g w) = postSignalSetFn w"
  by (simp add: with_graph_def)

lemma callPostSignalSetFn_readonlySignal [simp]:
  "readonlySignal (snd (callPostSignalSetFn w)) = readonlySignal w"
  by (simp add: callPostSignalSetFn_def split: option.splits prod.splits)

lemma callPostSignalSetFn_nextObj [simp]: "nextObj (snd (callPostSignalSetFn w)) = nextObj w"
  by (simp add: callPostSignalSetFn_def split: option.splits prod.splits)

lemma callPostSignalSetFn_no_hook:
  "postSignalSetFn w = None \<Longrightarrow> callPostSignalSetFn w = (Inr (), w)"
  by (simp add: callPostSignalSetFn_def)

subsection \<open>set\<close>

text \<open>
  C1. If the signal's equality function holds of the current value and \<open>v\<close>, then
  \<open>set(v)\<close> leaves the value as it is, does not increment the version, and does not call
  \<open>producerMayHaveChanged\<close>: the trace of its calls and the set of dirty dependents
  are as before. In fact the whole state is untouched, whether writes are allowed (the
  call returns) or not (it throws).
\<close>

theorem set_equal_is_noop:
  assumes "equalFn (nodes w n) (nodeValue (nodes w n)) v"
  shows "nodeValue (nodes (snd (ws_set n v w)) n) = nodeValue (nodes w n) \<and>
         valueVersion (nodes (snd (ws_set n v w)) n) = valueVersion (nodes w n) \<and>
         trace (snd (ws_set n v w)) = trace w \<and>
         dirty (snd (ws_set n v w)) = dirty w \<and>
         snd (ws_set n v w) = w"
  using assms by (simp add: ws_set_def throwInvalidWriteToSignalError_def)

text \<open>
  An instance: under an equality that compares parities, setting 7 over 5 keeps 5.
\<close>

theorem set_equal_is_noop_witness:
  "equalFn (nodes parity_world 0) (nodeValue (nodes parity_world 0)) 7 \<and>
   nodeValue (nodes (snd (ws_set 0 7 parity_world)) 0) = 5 \<and>
   valueVersion (nodes (snd (ws_set 0 7 parity_world)) 0) = 0 \<and>
   trace (snd (ws_set 0 7 parity_world)) = [] \<and>
   dirty (snd (ws_set 0 7 parity_world)) = {}"
  using set_equal_is_noop [of parity_world 0 7] by simp

text \<open>
  What \<open>set\<close> does on the writing path, before the hook: the three statements of
  lines 105 to 107, as one update of the state.
\<close>

lemma set_body_closed_form:
  "producerMayHaveChanged n (incValueVersion n (assignValue n v w)) =
     w\<lparr>nodes := (nodes w)(n := (nodes w n)\<lparr>nodeValue := v,
                   valueVersion := valueVersion (nodes w n) + 1\<rparr>),
       dirty := dirty w \<union> consumers (nodes w n),
       trace := trace w @ [ProducerMayHaveChanged n]\<rparr>"
  by (simp add: producerMayHaveChanged_def incValueVersion_def assignValue_def)

text \<open>
  The example hook \<open>rewriting_hook\<close> is \<open>() => s.set(99)\<close>: in a world where it is
  the installed hook, what it does to the graph is what \<open>set(99)\<close> on signal 0 does,
  the nested run of the hook included (the equality function holding of 99 and 99).
\<close>

lemma rewriting_hook_is_set_99:
  assumes "postSignalSetFn w = Some rewriting_hook" and "equalFn (nodes w 0) 99 99"
  shows "ws_set 0 99 w = (case rewriting_hook (graph_of w) of (r, g) \<Rightarrow> (r, with_graph g w))"
  using assms
  by (simp add: ws_set_def throwInvalidWriteToSignalError_def callPostSignalSetFn_def
      producerUpdatesAllowed_def producerMayHaveChanged_def incValueVersion_def
      assignValue_def graph_of_def with_graph_def)

text \<open>
  C2 as stated does not hold when a post-set hook is installed that writes the signal.
  With the hook \<open>() => s.set(99)\<close>, writes allowed and 5 unequal to 6, \<open>s.set(6)\<close>
  returns with the value 99, not 6, the version two higher, and two calls of
  \<open>producerMayHaveChanged\<close>.
\<close>

theorem set_unequal_writes_counterexample:
  "producerUpdatesAllowed rewriting_world \<and>
   \<not> equalFn (nodes rewriting_world 0) (nodeValue (nodes rewriting_world 0)) 6 \<and>
   fst (ws_set 0 6 rewriting_world) = Inr () \<and>
   nodeValue (nodes (snd (ws_set 0 6 rewriting_world)) 0) = 99 \<and>
   valueVersion (nodes rewriting_world 0) = 0 \<and>
   valueVersion (nodes (snd (ws_set 0 6 rewriting_world)) 0) = 2 \<and>
   trace rewriting_world = [] \<and>
   trace (snd (ws_set 0 6 rewriting_world)) =
     [ProducerMayHaveChanged 0, ProducerMayHaveChanged 0]"
  by (simp add: ws_set_def producerUpdatesAllowed_def callPostSignalSetFn_def graph_of_def
      with_graph_def producerMayHaveChanged_def incValueVersion_def assignValue_def)

text \<open>
  C2, amended. If writes are allowed and the equality function does not hold of the
  current value and \<open>v\<close>, then \<open>set(v)\<close> stores \<open>v\<close>, increments the version by exactly
  one and calls \<open>producerMayHaveChanged\<close> exactly once (one more entry in the trace,
  the node's dependents dirty), changes nothing else, and then runs the post-set hook:
  the outcome and final state of \<open>set\<close> are those of the hook started in that state.
  When no hook is installed, \<open>set\<close> returns normally in that state.
\<close>

theorem set_unequal_writes:
  assumes "producerUpdatesAllowed w"
    and "\<not> equalFn (nodes w n) (nodeValue (nodes w n)) v"
  shows "ws_set n v w =
           callPostSignalSetFn
             (w\<lparr>nodes := (nodes w)(n := (nodes w n)\<lparr>nodeValue := v,
                           valueVersion := valueVersion (nodes w n) + 1\<rparr>),
               dirty := dirty w \<union> consumers (nodes w n),
               trace := trace w @ [ProducerMayHaveChanged n]\<rparr>) \<and>
         (postSignalSetFn w = None \<longrightarrow>
            fst (ws_set n v w) = Inr () \<and>
            nodeValue (nodes (snd (ws_set n v w)) n) = v \<and>
            valueVersion (nodes (snd (ws_set n v w)) n) = valueVersion (nodes w n) + 1 \<and>
            trace (snd (ws_set n v w)) = trace w @ [ProducerMayHaveChanged n] \<and>
            dirty (snd (ws_set n v w)) = dirty w \<union> consumers (nodes w n))"
proof -
  have body: "ws_set n v w =
      callPostSignalSetFn (producerMayHaveChanged n (incValueVersion n (assignValue n v w)))"
    using assms by (simp add: ws_set_def)
  then have first: "ws_set n v w =
      callPostSignalSetFn
        (w\<lparr>nodes := (nodes w)(n := (nodes w n)\<lparr>nodeValue := v,
                      valueVersion := valueVersion (nodes w n) + 1\<rparr>),
          dirty := dirty w \<union> consumers (nodes w n),
          trace := trace w @ [ProducerMayHaveChanged n]\<rparr>)"
    by (simp only: set_body_closed_form)
  have "postSignalSetFn w = None \<Longrightarrow>
      ws_set n v w =
        (Inr (), w\<lparr>nodes := (nodes w)(n := (nodes w n)\<lparr>nodeValue := v,
                      valueVersion := valueVersion (nodes w n) + 1\<rparr>),
          dirty := dirty w \<union> consumers (nodes w n),
          trace := trace w @ [ProducerMayHaveChanged n]\<rparr>)"
    by (simp add: first callPostSignalSetFn_def)
  then have "postSignalSetFn w = None \<longrightarrow>
      fst (ws_set n v w) = Inr () \<and>
      nodeValue (nodes (snd (ws_set n v w)) n) = v \<and>
      valueVersion (nodes (snd (ws_set n v w)) n) = valueVersion (nodes w n) + 1 \<and>
      trace (snd (ws_set n v w)) = trace w @ [ProducerMayHaveChanged n] \<and>
      dirty (snd (ws_set n v w)) = dirty w \<union> consumers (nodes w n)"
    by simp
  with first show ?thesis by blast
qed

text \<open>
  Three instances: without a hook; with a hook that throws, where the error leaves
  \<open>set\<close> after the write; with the hook that writes the signal again, whose changes
  come on top of those of \<open>set\<close>.
\<close>

theorem set_unequal_writes_witness:
  "producerUpdatesAllowed example_world \<and>
   \<not> equalFn (nodes example_world 0) (nodeValue (nodes example_world 0)) 6 \<and>
   postSignalSetFn example_world = None \<and>
   fst (ws_set 0 6 example_world) = Inr () \<and>
   nodeValue (nodes (snd (ws_set 0 6 example_world)) 0) = 6 \<and>
   valueVersion (nodes (snd (ws_set 0 6 example_world)) 0) = 1 \<and>
   trace (snd (ws_set 0 6 example_world)) = [ProducerMayHaveChanged 0] \<and>
   dirty (snd (ws_set 0 6 example_world)) = {7} \<and>
   producerUpdatesAllowed hooked_world \<and>
   \<not> equalFn (nodes hooked_world 0) (nodeValue (nodes hooked_world 0)) 6 \<and>
   ws_set 0 6 hooked_world =
     (Inl (Thrown ''hook failed''),
      hooked_world\<lparr>nodes := (nodes hooked_world)(0 := example_node\<lparr>nodeValue := 6,
                       valueVersion := 1\<rparr>),
        dirty := {7}, trace := [ProducerMayHaveChanged 0], heap := 10\<rparr>) \<and>
   producerUpdatesAllowed rewriting_world \<and>
   \<not> equalFn (nodes rewriting_world 0) (nodeValue (nodes rewriting_world 0)) 6 \<and>
   ws_set 0 6 rewriting_world =
     (Inr (),
      rewriting_world\<lparr>nodes := (nodes rewriting_world)(0 := example_node\<lparr>nodeValue := 99,
                          valueVersion := 2\<rparr>),
        dirty := {7}, trace := [ProducerMayHaveChanged 0, ProducerMayHaveChanged 0]\<rparr>)"
  using set_unequal_writes [where w = example_world and n = 0 and v = 6]
    set_unequal_writes [where w = hooked_world and n = 0 and v = 6]
    set_unequal_writes [where w = rewriting_world and n = 0 and v = 6]
  by (simp add: producerUpdatesAllowed_def callPostSignalSetFn_def graph_of_def
      with_graph_def producerMayHaveChanged_def incValueVersion_def assignValue_def
      numeral_2_eq_2)

subsection \<open>Writes while a consumer computes\<close>

text \<open>
  C3. While a consumer that has not opted into signal writes is the active consumer,
  \<open>set\<close>, \<open>update\<close> and \<open>mutate\<close> each throw the invalid-write error to their caller.
\<close>

theorem write_in_readonly_pass_throws:
  assumes "activeConsumer w = Some c" and "\<not> consumerAllowSignalWrites c"
  shows "fst (ws_set n v w) = Inl InvalidWriteToSignal \<and>
         fst (ws_update n updater w) = Inl InvalidWriteToSignal \<and>
         fst (ws_mutate n mutator w) = Inl InvalidWriteToSignal"
  using assms
  by (simp add: ws_set_def ws_update_def ws_mutate_def producerUpdatesAllowed_def
      throwInvalidWriteToSignalError_def)

theorem write_in_readonly_pass_throws_witness:
  "activeConsumer computing_world = Some \<lparr>consumerId = 7, consumerAllowSignalWrites = False\<rparr> \<and>
   \<not> consumerAllowSignalWrites \<lparr>consumerId = 7, consumerAllowSignalWrites = False\<rparr> \<and>
   fst (ws_set 0 6 computing_world) = Inl InvalidWriteToSignal \<and>
   fst (ws_update 0 counting_updater computing_world) = Inl InvalidWriteToSignal \<and>
   fst (ws_mutate 0 counting_mutator computing_world) = Inl InvalidWriteToSignal"
  using write_in_readonly_pass_throws
    [of computing_world "\<lparr>consumerId = 7, consumerAllowSignalWrites = False\<rparr>" 0 6
        counting_updater counting_mutator]
  by simp

text \<open>
  C9. When producer updates are not allowed, \<open>set\<close>, \<open>update\<close> and \<open>mutate\<close> throw
  before they do anything: the state at the throw is the state at the call (value,
  version, trace of \<open>producerMayHaveChanged\<close> calls, dirty set, and the callbacks'
  own state), whatever the updater or mutator is, so neither was invoked.
\<close>

theorem disallowed_write_changes_nothing:
  assumes "\<not> producerUpdatesAllowed w"
  shows "ws_set n v w = (Inl InvalidWriteToSignal, w) \<and>
         ws_update n updater w = (Inl InvalidWriteToSignal, w) \<and>
         ws_mutate n mutator w = (Inl InvalidWriteToSignal, w)"
  using assms
  by (simp add: ws_set_def ws_update_def ws_mutate_def throwInvalidWriteToSignalError_def)

theorem disallowed_write_changes_nothing_witness:
  "\<not> producerUpdatesAllowed computing_world \<and>
   ws_set 0 6 computing_world = (Inl InvalidWriteToSignal, computing_world) \<and>
   ws_update 0 counting_updater computing_world = (Inl InvalidWriteToSignal, computing_world) \<and>
   ws_mutate 0 counting_mutator computing_world = (Inl InvalidWriteToSignal, computing_world)"
  using disallowed_write_changes_nothing [of computing_world 0 6 counting_updater counting_mutator]
  by (simp add: producerUpdatesAllowed_def)

subsection \<open>mutate\<close>




subsection \<open>update\<close>

text \<open>
  C6 as stated does not hold. While consumer 7 computes without permission to write,
  \<open>update(fn)\<close> throws before it calls \<open>fn\<close>, whereas \<open>set(fn(current))\<close> evaluates
  its argument, one call of \<open>fn\<close>, before \<open>set\<close> throws: the invocations of \<open>fn\<close>
  differ (none against one).
\<close>

theorem update_is_not_set_of_fn_counterexample:
  "ws_update 0 counting_updater computing_world = (Inl InvalidWriteToSignal, computing_world) \<and>
   set_of_fn_current 0 counting_updater computing_world =
     (Inl InvalidWriteToSignal, computing_world\<lparr>heap := 1\<rparr>) \<and>
   heap (snd (ws_update 0 counting_updater computing_world)) \<noteq>
   heap (snd (set_of_fn_current 0 counting_updater computing_world))"
  by (simp add: ws_update_def set_of_fn_current_def ws_set_def producerUpdatesAllowed_def
      throwInvalidWriteToSignalError_def graph_of_def with_graph_def)

text \<open>
  C6, amended. When writes are allowed at the call, \<open>update(fn)\<close> and
  \<open>set(fn(current))\<close> have the same outcome and leave the same state: the same value,
  version, propagation, error and invocations of \<open>fn\<close>. When writes are not allowed,
  \<open>update(fn)\<close> throws the invalid-write error without calling \<open>fn\<close> and without
  changing anything.
\<close>

theorem update_refines_set_of_fn:
  "(producerUpdatesAllowed w \<longrightarrow> ws_update n fn w = set_of_fn_current n fn w) \<and>
   (\<not> producerUpdatesAllowed w \<longrightarrow> ws_update n fn w = (Inl InvalidWriteToSignal, w))"
proof (cases "producerUpdatesAllowed w")
  case True
  then have "ws_update n fn w = set_of_fn_current n fn w"
    by (simp add: ws_update_def set_of_fn_current_def)
  with True show ?thesis by simp
next
  case False
  then have "ws_update n fn w = (Inl InvalidWriteToSignal, w)"
    by (simp add: ws_update_def throwInvalidWriteToSignalError_def)
  with False show ?thesis by simp
qed

theorem update_refines_set_of_fn_witness:
  "producerUpdatesAllowed example_world \<and>
   ws_update 0 counting_updater example_world = set_of_fn_current 0 counting_updater example_world \<and>
   nodeValue (nodes (snd (ws_update 0 counting_updater example_world)) 0) = 6 \<and>
   heap (snd (ws_update 0 counting_updater example_world)) = 1 \<and>
   \<not> producerUpdatesAllowed computing_world \<and>
   ws_update 0 counting_updater computing_world = (Inl InvalidWriteToSignal, computing_world)"
  using update_refines_set_of_fn [of example_world 0 counting_updater]
    update_refines_set_of_fn [of computing_world 0 counting_updater]
  by (simp add: producerUpdatesAllowed_def set_of_fn_current_def ws_set_def
      callPostSignalSetFn_def producerMayHaveChanged_def incValueVersion_def assignValue_def
      graph_of_def with_graph_def)

subsection \<open>What the methods leave alone\<close>

text \<open>
  Only \<open>asReadonly\<close> writes the \<open>readonlySignal\<close> field or allocates a function
  object, whatever the callbacks and the hook do to the graph.
\<close>

lemma ws_set_readonlySignal [simp]:
  "readonlySignal (snd (ws_set n v w)) = readonlySignal w"
  by (simp add: ws_set_def throwInvalidWriteToSignalError_def producerMayHaveChanged_def
      incValueVersion_def assignValue_def)

lemma ws_set_nextObj [simp]: "nextObj (snd (ws_set n v w)) = nextObj w"
  by (simp add: ws_set_def throwInvalidWriteToSignalError_def producerMayHaveChanged_def
      incValueVersion_def assignValue_def)

lemma ws_update_readonlySignal [simp]:
  "readonlySignal (snd (ws_update n f w)) = readonlySignal w"
  by (simp add: ws_update_def throwInvalidWriteToSignalError_def
      split: prod.splits sum.splits)

lemma ws_update_nextObj [simp]: "nextObj (snd (ws_update n f w)) = nextObj w"
  by (simp add: ws_update_def throwInvalidWriteToSignalError_def
      split: prod.splits sum.splits)

lemma ws_mutate_readonlySignal [simp]:
  "readonlySignal (snd (ws_mutate n f w)) = readonlySignal w"
  by (simp add: ws_mutate_def throwInvalidWriteToSignalError_def producerMayHaveChanged_def
      incValueVersion_def split: prod.splits sum.splits)

lemma ws_mutate_nextObj [simp]: "nextObj (snd (ws_mutate n f w)) = nextObj w"
  by (simp add: ws_mutate_def throwInvalidWriteToSignalError_def producerMayHaveChanged_def
      incValueVersion_def split: prod.splits sum.splits)

lemma ws_signal_readonlySignal [simp]:
  "readonlySignal (snd (ws_signal n w)) = readonlySignal w"
  by (simp add: ws_signal_def producerAccessed_def split: option.splits)

lemma ws_signal_nextObj [simp]: "nextObj (snd (ws_signal n w)) = nextObj w"
  by (simp add: ws_signal_def producerAccessed_def split: option.splits)

subsection \<open>asReadonly\<close>














subsection \<open>Reading through the readonly view\<close>

text \<open>
  The cached view stays a closure over its own node: \<open>signal\<close> creates the node
  without a view, and every call preserves the property.
\<close>

lemma signal_readonlySignal_ok:
  "readonlySignal_ok (captured (fst (signal defaultEquals v options w)))
     (snd (signal defaultEquals v options w))"
  by (simp add: signal_def new_WritableSignalImpl_def createSignalFromFunction_def
      readonlySignal_ok_def)

lemma perform_readonlySignal_ok:
  "readonlySignal_ok n w \<Longrightarrow> readonlySignal_ok n (perform n c w)"
  by (cases c)
    (simp_all add: readonlySignal_ok_def ws_asReadonly_def createSignalFromFunction_def
      split: option.splits)

lemma ws_asReadonly_captured:
  "readonlySignal_ok n w \<Longrightarrow> captured (fst (ws_asReadonly n w)) = n"
  by (simp add: ws_asReadonly_def readonlySignal_ok_def createSignalFromFunction_def
      split: option.splits)

lemma ws_signal_value: "fst (ws_signal n w) = nodeValue (nodes w n)"
  by (simp add: ws_signal_def producerAccessed_def split: option.splits)

text \<open>Without a hook, a \<open>set\<close> that returns leaves the old value or the new one.\<close>

lemma ws_set_value_no_hook:
  assumes "postSignalSetFn w = None" and "fst (ws_set n v w) = Inr u"
  shows "nodeValue (nodes (snd (ws_set n v w)) n) =
           (if equalFn (nodes w n) (nodeValue (nodes w n)) v then nodeValue (nodes w n) else v)"
  using assms
  by (simp add: ws_set_def throwInvalidWriteToSignalError_def callPostSignalSetFn_def
      incValueVersion_def assignValue_def producerMayHaveChanged_def split: if_splits)

text \<open>
  C8 as stated does not hold. With an equality function that compares parities,
  \<open>set(7)\<close> on a signal holding 5 returns normally and the view obtained before still
  reads 5, not 7.
\<close>

theorem readonly_view_reads_the_node_counterexample:
  "fst (ws_set 0 7 (snd (ws_asReadonly 0 parity_world))) = Inr () \<and>
   fst (callView (fst (ws_asReadonly 0 parity_world))
          (snd (ws_set 0 7 (snd (ws_asReadonly 0 parity_world))))) = 5 \<and>
   fst (callView (fst (ws_asReadonly 0 parity_world))
          (snd (ws_set 0 7 (snd (ws_asReadonly 0 parity_world))))) \<noteq> 7"
  by (simp add: ws_set_def ws_asReadonly_def createSignalFromFunction_def callView_def
      ws_signal_value producerUpdatesAllowed_def)

text \<open>
  C8, amended. The view returned by \<open>asReadonly\<close> reads the signal's own node, not a
  copy: in every state, a call of the view does exactly what the signal's own read does,
  so it returns the signal's current value, whatever was written through the original
  handle and by whom. After a \<open>set(v)\<close> that returns normally with no post-set hook
  installed, that value is \<open>v\<close> if the equality function did not hold of the value
  before the call and \<open>v\<close>, and the value before the call otherwise.
\<close>

theorem readonly_view_reads_the_node:
  assumes "readonlySignal_ok n w0"
    and "ws_asReadonly n w0 = (view, w1)"
  shows "callView view w' = ws_signal n w' \<and>
         fst (callView view w') = nodeValue (nodes w' n) \<and>
         (postSignalSetFn w = None \<longrightarrow> fst (ws_set n v w) = Inr () \<longrightarrow>
            fst (callView view (snd (ws_set n v w))) =
              (if equalFn (nodes w n) (nodeValue (nodes w n)) v
               then nodeValue (nodes w n) else v))"
proof -
  have view: "captured view = n"
    using ws_asReadonly_captured [OF assms(1)] assms(2) by simp
  have after_set: "postSignalSetFn w = None \<longrightarrow> fst (ws_set n v w) = Inr () \<longrightarrow>
      fst (callView view (snd (ws_set n v w))) =
        (if equalFn (nodes w n) (nodeValue (nodes w n)) v then nodeValue (nodes w n) else v)"
  proof (intro impI)
    assume no_hook: "postSignalSetFn w = None" and returned: "fst (ws_set n v w) = Inr ()"
    have "fst (callView view (snd (ws_set n v w))) = nodeValue (nodes (snd (ws_set n v w)) n)"
      by (simp add: callView_def view ws_signal_value)
    also have "\<dots> =
        (if equalFn (nodes w n) (nodeValue (nodes w n)) v then nodeValue (nodes w n) else v)"
      by (rule ws_set_value_no_hook [OF no_hook returned])
    finally show "fst (callView view (snd (ws_set n v w))) =
        (if equalFn (nodes w n) (nodeValue (nodes w n)) v then nodeValue (nodes w n) else v)" .
  qed
  have "callView view w' = ws_signal n w'"
    by (simp add: callView_def view)
  moreover have "fst (callView view w') = nodeValue (nodes w' n)"
    by (simp add: callView_def view ws_signal_value)
  ultimately show ?thesis using after_set by blast
qed

text \<open>
  Instances: a write that takes effect is read through the view; so is what a hook
  wrote after it.
\<close>

theorem readonly_view_reads_the_node_witness:
  "readonlySignal_ok 0 example_world \<and>
   fst (ws_asReadonly 0 example_world) = Closure 0 0 \<and>
   postSignalSetFn (snd (ws_asReadonly 0 example_world)) = None \<and>
   fst (ws_set 0 6 (snd (ws_asReadonly 0 example_world))) = Inr () \<and>
   fst (callView (Closure 0 0) (snd (ws_set 0 6 (snd (ws_asReadonly 0 example_world))))) = 6 \<and>
   readonlySignal_ok 0 rewriting_world \<and>
   fst (ws_asReadonly 0 rewriting_world) = Closure 0 0 \<and>
   fst (callView (Closure 0 0) (snd (ws_set 0 6 (snd (ws_asReadonly 0 rewriting_world))))) = 99 \<and>
   fst (ws_signal 0 (snd (ws_set 0 6 (snd (ws_asReadonly 0 rewriting_world))))) = 99"
  using readonly_view_reads_the_node
    [where n = 0 and ?w0.0 = example_world and view = "Closure 0 0"
       and ?w1.0 = "snd (ws_asReadonly 0 example_world)" and v = 6
       and w = "snd (ws_asReadonly 0 example_world)"
       and w' = "snd (ws_set 0 6 (snd (ws_asReadonly 0 example_world)))"]
    readonly_view_reads_the_node
    [where n = 0 and ?w0.0 = rewriting_world and view = "Closure 0 0"
       and ?w1.0 = "snd (ws_asReadonly 0 rewriting_world)" and v = 6
       and w = "snd (ws_asReadonly 0 rewriting_world)"
       and w' = "snd (ws_set 0 6 (snd (ws_asReadonly 0 rewriting_world)))"]
  by (simp add: readonlySignal_ok_def ws_asReadonly_def createSignalFromFunction_def
      ws_set_def producerUpdatesAllowed_def callPostSignalSetFn_def graph_of_def with_graph_def
      producerMayHaveChanged_def incValueVersion_def assignValue_def ws_signal_value)

section \<open>Properties of the injection context\<close>

text \<open>
  C4 as stated does not hold for every resolver. For an \<open>R3Injector\<close> whose
  \<open>assertNotDestroyed()\<close> throws, \<open>runInInjectionContext\<close> throws at line 44, before it
  installs anything: \<open>fn\<close>, which would have returned 42, is not invoked.
\<close>

theorem runInInjectionContext_counterexample:
  "runInInjectionContext destroyed_injector counting_fn outside_context =
     (Inl (Thrown ''Injector has already been destroyed.''), outside_context) \<and>
   fst (counting_fn (outside_context\<lparr>currentInjector := Injector destroyed_injector\<rparr>)) = Inr 42 \<and>
   appState (snd (runInInjectionContext destroyed_injector counting_fn outside_context)) = 0"
  by (simp add: runInInjectionContext_def)

text \<open>
  C4, amended. On every exit path \<open>runInInjectionContext(injector, fn)\<close> leaves the
  current injector and the inject implementation as they were at the call. If the
  injector is an \<open>R3Injector\<close> whose \<open>assertNotDestroyed()\<close> throws, that error is
  thrown, \<open>fn\<close> is not invoked and nothing changes. Otherwise \<open>fn\<close> is invoked once,
  synchronously, with the injector installed and the inject implementation cleared; its
  result is returned or its error rethrown; and whatever \<open>fn\<close> did to the two slots is
  undone, while the rest of what it did stays.
\<close>

theorem runInInjectionContext_restores:
  "currentInjector (snd (runInInjectionContext injector fn s)) = currentInjector s \<and>
   injectImplementation (snd (runInInjectionContext injector fn s)) = injectImplementation s \<and>
   (case (if isR3Injector injector then assertNotDestroyed injector else None) of
      Some e \<Rightarrow> runInInjectionContext injector fn s = (Inl e, s)
    | None \<Rightarrow>
        runInInjectionContext injector fn s =
          (fst (fn (s\<lparr>currentInjector := Injector injector, injectImplementation := None\<rparr>)),
           (snd (fn (s\<lparr>currentInjector := Injector injector, injectImplementation := None\<rparr>)))
             \<lparr>currentInjector := currentInjector s,
              injectImplementation := injectImplementation s\<rparr>))"
  by (simp add: runInInjectionContext_def setCurrentInjector_def setInjectImplementation_def
      split: option.splits prod.splits)

text \<open>
  Instances: a function that overwrites both slots and throws; a function that returns,
  called inside another context; a destroyed injector.
\<close>

theorem runInInjectionContext_restores_witness:
  "runInInjectionContext live_injector leaking_fn outside_context =
     (Inl (Thrown ''boom''), outside_context\<lparr>appState := 1\<rparr>) \<and>
   runInInjectionContext live_injector counting_fn
       (outside_context\<lparr>currentInjector := Null, injectImplementation := Some 3\<rparr>) =
     (Inr 42, outside_context\<lparr>currentInjector := Null, injectImplementation := Some 3, appState := 1\<rparr>) \<and>
   runInInjectionContext destroyed_injector counting_fn outside_context =
     (Inl (Thrown ''Injector has already been destroyed.''), outside_context)"
  using runInInjectionContext_restores [of live_injector leaking_fn outside_context]
    runInInjectionContext_restores [of live_injector counting_fn
       "outside_context\<lparr>currentInjector := Null, injectImplementation := Some 3\<rparr>"]
    runInInjectionContext_restores [of destroyed_injector counting_fn outside_context]
  by simp

lemma assertInInjectionContext_outside:
  assumes "\<not> truthy_impl (injectImplementation s)" and "\<not> truthy_injector (currentInjector s)"
  shows "assertInInjectionContext ngDevMode debugFn s =
           (Inl (RuntimeError MISSING_INJECTION_CONTEXT
              (if ngDevMode
               then Some (fnName debugFn @
                 ''() can only be used within an injection context such as a constructor, a factory function, a field initializer, or a function used with `runInInjectionContext`'')
               else None)), s)"
  using assms
  by (simp add: assertInInjectionContext_def getInjectImplementation_def getCurrentInjector_def)

lemma assertInInjectionContext_inside:
  assumes "truthy_impl (injectImplementation s) \<or> truthy_injector (currentInjector s)"
  shows "assertInInjectionContext ngDevMode debugFn s = (Inr (), s)"
  using assms
  by (auto simp: assertInInjectionContext_def getInjectImplementation_def getCurrentInjector_def)

text \<open>
  C5 as stated does not hold in a production build. With \<open>ngDevMode\<close> falsy the
  message argument of the error is the falsy \<open>ngDevMode\<close> itself: the error carries its
  code and no text that names the caller.
\<close>

theorem assertInInjectionContext_counterexample:
  "assertInInjectionContext False (Function ''inject'') outside_context =
     (Inl (RuntimeError MISSING_INJECTION_CONTEXT None), outside_context)"
  by (simp add: assertInInjectionContext_def getInjectImplementation_def getCurrentInjector_def)

text \<open>
  C5, amended. \<open>assertInInjectionContext\<close> throws the missing-injection-context error
  if and only if neither an inject implementation nor a current injector is installed
  (\<open>undefined\<close> and \<open>null\<close> both count as no injector), and returns otherwise; it changes
  nothing. In development mode the error's message begins with the name of the function
  that made the assertion; in production mode the error has no message.
\<close>

theorem assertInInjectionContext_throws_iff:
  "((\<exists>m. fst (assertInInjectionContext ngDevMode debugFn s) =
            Inl (RuntimeError MISSING_INJECTION_CONTEXT m)) \<longleftrightarrow>
      \<not> truthy_impl (injectImplementation s) \<and> \<not> truthy_injector (currentInjector s)) \<and>
   (fst (assertInInjectionContext ngDevMode debugFn s) = Inr () \<longleftrightarrow>
      truthy_impl (injectImplementation s) \<or> truthy_injector (currentInjector s)) \<and>
   snd (assertInInjectionContext ngDevMode debugFn s) = s \<and>
   (\<forall>m. fst (assertInInjectionContext ngDevMode debugFn s) =
            Inl (RuntimeError MISSING_INJECTION_CONTEXT m) \<longrightarrow>
        (if ngDevMode then \<exists>rest. m = Some (fnName debugFn @ rest) else m = None))"
proof (cases "truthy_impl (injectImplementation s) \<or> truthy_injector (currentInjector s)")
  case True
  from assertInInjectionContext_inside [OF True, of ngDevMode debugFn] True
  show ?thesis by simp
next
  case False
  then have "\<not> truthy_impl (injectImplementation s)" and "\<not> truthy_injector (currentInjector s)"
    by simp_all
  from assertInInjectionContext_outside [OF this, of ngDevMode debugFn] False
  show ?thesis by simp
qed

theorem assertInInjectionContext_throws_iff_witness:
  "fst (assertInInjectionContext True (Function ''inject'') outside_context) =
     Inl (RuntimeError MISSING_INJECTION_CONTEXT (Some (''inject'' @
       ''() can only be used within an injection context such as a constructor, a factory function, a field initializer, or a function used with `runInInjectionContext`''))) \<and>
   fst (assertInInjectionContext True (Function ''inject'')
         (outside_context\<lparr>currentInjector := Injector live_injector\<rparr>)) = Inr () \<and>
   fst (assertInInjectionContext True (Function ''inject'')
         (outside_context\<lparr>injectImplementation := Some 3\<rparr>)) = Inr () \<and>
   (\<exists>m. fst (assertInInjectionContext True (Function ''inject'')
         (outside_context\<lparr>currentInjector := Null\<rparr>)) = Inl (RuntimeError MISSING_INJECTION_CONTEXT m))"
  using assertInInjectionContext_throws_iff [of True "Function ''inject''" outside_context]
    assertInInjectionContext_throws_iff [of True "Function ''inject''"
      "outside_context\<lparr>currentInjector := Injector live_injector\<rparr>"]
    assertInInjectionContext_throws_iff [of True "Function ''inject''"
      "outside_context\<lparr>injectImplementation := Some 3\<rparr>"]
    assertInInjectionContext_throws_iff [of True "Function ''inject''"
      "outside_context\<lparr>currentInjector := Null\<rparr>"]
  by (simp add: assertInInjectionContext_def getInjectImplementation_def getCurrentInjector_def)

end
